theory Spec2Isabelle
  imports Complex_Main
begin

section \<open>The resilient request client of \<^verbatim>\<open>frontend/lib/api.ts\<close>\<close>

text \<open>
  The module wraps \<^verbatim>\<open>fetch\<close> in a retry loop (\<^verbatim>\<open>fetchWithRetry\<close>) and
  builds the typed API functions on it. The embedding keeps what decides the control
  flow of the module: the values read from a response body, the thrown errors with their
  \<^verbatim>\<open>name\<close> and \<^verbatim>\<open>message\<close>, the abort controllers and their listeners,
  and a log of the calls of \<^verbatim>\<open>fetch\<close> and \<^verbatim>\<open>sleep\<close>. The URL, the
  headers and the request body never decide a branch of the module and the transport's
  answer is arbitrary, so the request descriptor is left out.
\<close>

subsection \<open>Constants\<close>

definition REQUEST_TIMEOUT :: nat where
  "REQUEST_TIMEOUT = 120000"

definition MAX_RETRIES :: int where
  "MAX_RETRIES = 3"

definition RETRY_DELAY :: nat where
  "RETRY_DELAY = 1000"

subsection \<open>JavaScript values\<close>

text \<open>
  What \<^verbatim>\<open>response.json()\<close> can return, within these bounds: numbers are the
  integers of magnitude below \<open>10 ^ 21\<close>, which \<^verbatim>\<open>String\<close> prints in plain
  decimal; strings hold 8-bit characters; an object is the list of its own properties, each
  key once, with no \<^verbatim>\<open>toString\<close> or \<^verbatim>\<open>valueOf\<close> among them.
  \<^verbatim>\<open>undefined\<close> is \<open>None\<close> of an option.
\<close>

datatype js_value =
    JNull
  | JBool bool
  | JNum int
  | JStr string
  | JArr "js_value list"
  | JObj "(string \<times> js_value) list"

text \<open>The numbers of TypeScript's \<^verbatim>\<open>number\<close> that a request field can hold.\<close>

datatype js_number = NaN | PosInfinity | NegInfinity | Num rat

fun number_truthy :: "js_number \<Rightarrow> bool" where
  "number_truthy NaN = False"
| "number_truthy (Num x) = (x \<noteq> 0)"
| "number_truthy PosInfinity = True"
| "number_truthy NegInfinity = True"

fun truthy :: "js_value \<Rightarrow> bool" where
  "truthy JNull = False"
| "truthy (JBool b) = b"
| "truthy (JNum n) = (n \<noteq> 0)"
| "truthy (JStr s) = (s \<noteq> [])"
| "truthy (JArr vs) = True"
| "truthy (JObj kvs) = True"

text \<open>
  \<^verbatim>\<open>undefined\<close> is falsy; \<^verbatim>\<open>a || b\<close> is \<^verbatim>\<open>a\<close> when that is truthy and
  \<^verbatim>\<open>b\<close> otherwise.
\<close>

fun to_boolean :: "js_value option \<Rightarrow> bool" where
  "to_boolean None = False"
| "to_boolean (Some a) = truthy a"

fun js_or :: "js_value option \<Rightarrow> js_value \<Rightarrow> js_value" where
  "js_or None b = b"
| "js_or (Some a) b = (if truthy a then a else b)"

definition digit :: "nat \<Rightarrow> char" where
  "digit d = ''0123456789'' ! d"

function string_of_nat :: "nat \<Rightarrow> string" where
  "string_of_nat n =
     (if n < 10 then [digit n] else string_of_nat (n div 10) @ [digit (n mod 10)])"
  by pat_completeness auto
termination
  by (relation "measure id") auto

declare string_of_nat.simps [simp del]

fun join :: "string \<Rightarrow> string list \<Rightarrow> string" where
  "join sep [] = []"
| "join sep [x] = x"
| "join sep (x # y # ys) = x @ sep @ join sep (y # ys)"

text \<open>
  \<^verbatim>\<open>String(v)\<close>: an array prints its elements joined by commas, \<^verbatim>\<open>null\<close>
  elements as the empty string; an object prints as \<^verbatim>\<open>[object Object]\<close>.
\<close>

fun js_to_string :: "js_value \<Rightarrow> string" where
  "js_to_string JNull = ''null''"
| "js_to_string (JBool b) = (if b then ''true'' else ''false'')"
| "js_to_string (JNum n) =
     (if n < 0 then ''-'' @ string_of_nat (nat (- n)) else string_of_nat (nat n))"
| "js_to_string (JStr s) = s"
| "js_to_string (JArr vs) =
     join '','' (map (\<lambda>v. if v = JNull then [] else js_to_string v) vs)"
| "js_to_string (JObj kvs) = ''[object Object]''"

subsection \<open>Errors and thrown values\<close>

datatype js_error = JsError (err_name: string) (err_message: string)

text \<open>\<^verbatim>\<open>new Error(message)\<close>: the name of a plain error is \<^verbatim>\<open>Error\<close>.\<close>

definition new_Error :: "string \<Rightarrow> js_error" where
  "new_Error msg = JsError ''Error'' msg"

text \<open>
  A thrown value is an \<^verbatim>\<open>Error\<close> object or anything else; the module reads a
  value that is not an error only through \<^verbatim>\<open>String(error)\<close>, which
  \<open>NotError\<close> carries.
\<close>

datatype thrown = ErrorObj js_error | NotError string

text \<open>
  Reading a property: \<^verbatim>\<open>null\<close> throws a \<^verbatim>\<open>TypeError\<close> (with the message
  of V8), an object gives the property or \<^verbatim>\<open>undefined\<close>, and the other values
  have none of the properties the module reads (\<^verbatim>\<open>error\<close>, \<^verbatim>\<open>message\<close>,
  \<^verbatim>\<open>details\<close>, \<^verbatim>\<open>tasks\<close>).
\<close>

fun property :: "js_value \<Rightarrow> string \<Rightarrow> js_error + js_value option" where
  "property JNull k =
     Inl (JsError ''TypeError'' (''Cannot read properties of null (reading '' @ [CHR 39] @ k @ [CHR 39] @ '')''))"
| "property (JObj kvs) k = Inr (map_of kvs k)"
| "property v k = Inr None"

subsection \<open>Responses\<close>

text \<open>
  \<open>json\<close> is what \<^verbatim>\<open>response.json()\<close> settles with: the parsed body, or the
  \<^verbatim>\<open>SyntaxError\<close> of a body that is not JSON.
\<close>

record response =
  status :: nat
  statusText :: string
  json :: "js_error + js_value"

definition ok :: "response \<Rightarrow> bool" where
  "ok r = (200 \<le> status r \<and> status r \<le> 299)"

record ApiError =
  error :: js_value
  message :: js_value
  details :: "js_value option"

text \<open>
  The \<^verbatim>\<open>try\<close> block reads the body and its three properties; the bare
  \<^verbatim>\<open>catch\<close> replaces whatever was thrown there by the fallback.
\<close>

definition parseErrorResponse :: "response \<Rightarrow> ApiError" where
  "parseErrorResponse response =
     (case
        (case json response of
           Inl e \<Rightarrow> Inl e
         | Inr data \<Rightarrow>
             (case property data ''error'' of
                Inl e \<Rightarrow> Inl e
              | Inr err \<Rightarrow>
                  (case property data ''message'' of
                     Inl e \<Rightarrow> Inl e
                   | Inr msg \<Rightarrow>
                       (case property data ''details'' of
                          Inl e \<Rightarrow> Inl e
                        | Inr det \<Rightarrow>
                            Inr \<lparr>error = js_or err (JStr ''UNKNOWN_ERROR''),
                                 message = js_or msg (JStr ''An unknown error occurred''),
                                 details = det\<rparr>))))
      of
        Inr api_error \<Rightarrow> api_error
      | Inl e \<Rightarrow>
          \<lparr>error = JStr ''HTTP_ERROR'',
           message = JStr (''HTTP '' @ string_of_nat (status response) @ '': '' @ statusText response),
           details = None\<rparr>)"

subsection \<open>The retry loop\<close>

text \<open>
  \<open>fetch n\<close> is how the awaited \<^verbatim>\<open>Promise.race\<close> of attempt \<open>n\<close> settles: with
  a response, or with a thrown value (a network failure, the \<^verbatim>\<open>AbortError\<close> of an
  aborted signal, or the plain \<^verbatim>\<open>Error('Request timeout')\<close> of
  \<^verbatim>\<open>createTimeout\<close>). The log records each call of \<^verbatim>\<open>fetch\<close> with the
  bound on its wait in milliseconds, and each \<^verbatim>\<open>sleep\<close> with its delay.
\<close>

datatype outcome = Responded response | Threw thrown

datatype event = Fetch nat | Sleep nat

function fetchWithRetry_loop ::
  "(nat \<Rightarrow> outcome) \<Rightarrow> int \<Rightarrow> nat \<Rightarrow> js_error option \<Rightarrow> event list
     \<Rightarrow> (js_error + response) \<times> event list" where
  "fetchWithRetry_loop fetch retries attempt lastError trace =
     (if int attempt \<le> retries then
        (case fetch attempt of
           Responded response \<Rightarrow>
             if 400 \<le> status response \<and> status response < 500 then
               (Inr response, trace @ [Fetch REQUEST_TIMEOUT])
             else if \<not> ok response \<and> int attempt < retries then
               fetchWithRetry_loop fetch retries (attempt + 1) lastError
                 (trace @ [Fetch REQUEST_TIMEOUT, Sleep (RETRY_DELAY * 2 ^ attempt)])
             else (Inr response, trace @ [Fetch REQUEST_TIMEOUT])
         | Threw err \<Rightarrow>
             (let lastError' = (case err of ErrorObj e \<Rightarrow> e | NotError s \<Rightarrow> new_Error s) in
              if err_name lastError' = ''AbortError'' then
                (Inl (new_Error ''Request timeout''), trace @ [Fetch REQUEST_TIMEOUT])
              else if int attempt < retries then
                fetchWithRetry_loop fetch retries (attempt + 1) (Some lastError')
                  (trace @ [Fetch REQUEST_TIMEOUT, Sleep (RETRY_DELAY * 2 ^ attempt)])
              else
                fetchWithRetry_loop fetch retries (attempt + 1) (Some lastError')
                  (trace @ [Fetch REQUEST_TIMEOUT])))
      else
        (Inl (case lastError of
                Some e \<Rightarrow> e
              | None \<Rightarrow> new_Error ''Request failed after retries''),
         trace))"
  by pat_completeness auto
termination
  by (relation "measure (\<lambda>(fetch, retries, attempt, lastError, trace). nat (retries + 1 - int attempt))")
    auto

declare fetchWithRetry_loop.simps [simp del]

definition fetchWithRetry :: "(nat \<Rightarrow> outcome) \<Rightarrow> int \<Rightarrow> (js_error + response) \<times> event list" where
  "fetchWithRetry fetch retries = fetchWithRetry_loop fetch retries 0 None []"

subsection \<open>Abort controllers\<close>

text \<open>
  Each attempt creates its own \<^verbatim>\<open>AbortController\<close> and, when the caller passed
  \<^verbatim>\<open>options.signal\<close>, a second one whose signal goes to \<^verbatim>\<open>fetch\<close>. A
  controller and its signal are one object of the store, addressed by its index. Every
  listener the module registers has the form \<^verbatim>\<open>() => target.abort()\<close>, so a listener
  is the address of its target.
\<close>

record abort_signal =
  aborted :: bool
  listeners :: "nat list"

type_synonym store = "abort_signal list"






text \<open>
  Lines 78 to 97 of \<^verbatim>\<open>fetchWithRetry\<close>: the controller whose \<^verbatim>\<open>abort\<close> the
  120000 ms timer calls, and the signal handed to \<^verbatim>\<open>fetch\<close>.
\<close>

record wiring =
  controller :: nat
  signal :: nat
  signals :: store



subsection \<open>The API functions\<close>

text \<open>
  The strings that are trimmed are lists of UTF-16 code units, with the white space and
  line terminators of ECMAScript.
\<close>

definition WhiteSpace :: "nat \<Rightarrow> bool" where
  "WhiteSpace c =
     (c \<in> {9, 10, 11, 12, 13, 32, 160, 5760, 8232, 8233, 8239, 8287, 12288, 65279}
      \<or> (8192 \<le> c \<and> c \<le> 8202))"

definition trim :: "nat list \<Rightarrow> nat list" where
  "trim s = rev (dropWhile WhiteSpace (rev (dropWhile WhiteSpace s)))"

text \<open>
  In the functions with a \<^verbatim>\<open>try\<close> block, everything thrown inside it is an
  \<^verbatim>\<open>Error\<close> object (the rejection of \<^verbatim>\<open>fetchWithRetry\<close>, the error built from
  the parsed body, the \<^verbatim>\<open>SyntaxError\<close> of \<^verbatim>\<open>response.json()\<close>), so the last
  \<^verbatim>\<open>throw\<close> of the \<^verbatim>\<open>catch\<close> block, for a value that is not one, has no case.
\<close>

definition sendChatMessage ::
  "nat list \<Rightarrow> (nat \<Rightarrow> outcome) \<Rightarrow> (js_error + js_value) \<times> event list" where
  "sendChatMessage msg fetch =
     (if msg = [] \<or> trim msg = [] then (Inl (new_Error ''Message cannot be empty''), [])
      else
        (let (fetched, trace) = fetchWithRetry fetch MAX_RETRIES;
             tried =
               (case fetched of
                  Inl e \<Rightarrow> Inl e
                | Inr response \<Rightarrow>
                    if \<not> ok response then
                      Inl (new_Error (js_to_string
                        (js_or (Some (message (parseErrorResponse response)))
                           (JStr (''HTTP error! status: '' @ string_of_nat (status response))))))
                    else json response)
         in (case tried of
               Inl e \<Rightarrow>
                 if err_message e = ''Request timeout'' then
                   Inl (new_Error ''Request timed out. Please check your connection and try again.'')
                 else Inl e
             | Inr data \<Rightarrow> Inr data,
             trace)))"

text \<open>
  \<^verbatim>\<open>checkApiHealth\<close> calls \<^verbatim>\<open>fetch\<close> itself, once, with
  \<^verbatim>\<open>AbortSignal.timeout(5000)\<close>; its \<^verbatim>\<open>catch\<close> turns whatever is thrown
  into \<^verbatim>\<open>false\<close>.
\<close>

definition checkApiHealth :: "(nat \<Rightarrow> outcome) \<Rightarrow> (js_error + bool) \<times> event list" where
  "checkApiHealth fetch =
     (case fetch 0 of
        Responded response \<Rightarrow> Inr (ok response)
      | Threw err \<Rightarrow> Inr False,
      [Fetch 5000])"

definition createTask :: "(nat \<Rightarrow> outcome) \<Rightarrow> (js_error + js_value) \<times> event list" where
  "createTask fetch =
     (let (fetched, trace) = fetchWithRetry fetch MAX_RETRIES
      in (case fetched of
            Inl e \<Rightarrow> Inl e
          | Inr response \<Rightarrow>
              if \<not> ok response then
                Inl (new_Error (js_to_string (message (parseErrorResponse response))))
              else json response,
          trace))"

definition listTasks :: "(nat \<Rightarrow> outcome) \<Rightarrow> (js_error + js_value) \<times> event list" where
  "listTasks fetch =
     (let (fetched, trace) = fetchWithRetry fetch MAX_RETRIES
      in (case fetched of
            Inl e \<Rightarrow> Inl e
          | Inr response \<Rightarrow>
              if \<not> ok response then
                Inl (new_Error (js_to_string (message (parseErrorResponse response))))
              else
                (case json response of
                   Inl e \<Rightarrow> Inl e
                 | Inr data \<Rightarrow>
                     (case property data ''tasks'' of
                        Inl e \<Rightarrow> Inl e
                      | Inr tasks \<Rightarrow> Inr (js_or tasks (JArr [])))),
          trace))"

definition updateTask :: "(nat \<Rightarrow> outcome) \<Rightarrow> (js_error + js_value) \<times> event list" where
  "updateTask fetch =
     (let (fetched, trace) = fetchWithRetry fetch MAX_RETRIES
      in (case fetched of
            Inl e \<Rightarrow> Inl e
          | Inr response \<Rightarrow>
              if \<not> ok response then
                Inl (new_Error (js_to_string (message (parseErrorResponse response))))
              else json response,
          trace))"

definition deleteTask :: "(nat \<Rightarrow> outcome) \<Rightarrow> (js_error + unit) \<times> event list" where
  "deleteTask fetch =
     (let (fetched, trace) = fetchWithRetry fetch MAX_RETRIES
      in (case fetched of
            Inl e \<Rightarrow> Inl e
          | Inr response \<Rightarrow>
              if \<not> ok response then
                Inl (new_Error (js_to_string (message (parseErrorResponse response))))
              else Inr (),
          trace))"

definition getUpcomingTasks :: "(nat \<Rightarrow> outcome) \<Rightarrow> (js_error + js_value) \<times> event list" where
  "getUpcomingTasks fetch =
     (let (fetched, trace) = fetchWithRetry fetch MAX_RETRIES
      in (case fetched of
            Inl e \<Rightarrow> Inl e
          | Inr response \<Rightarrow>
              if \<not> ok response then
                Inl (new_Error (js_to_string (message (parseErrorResponse response))))
              else
                (case json response of
                   Inl e \<Rightarrow> Inl e
                 | Inr data \<Rightarrow>
                     (case property data ''tasks'' of
                        Inl e \<Rightarrow> Inl e
                      | Inr tasks \<Rightarrow> Inr (js_or tasks (JArr [])))),
          trace))"

definition exportToSheet :: "(nat \<Rightarrow> outcome) \<Rightarrow> (js_error + js_value) \<times> event list" where
  "exportToSheet fetch =
     (let (fetched, trace) = fetchWithRetry fetch MAX_RETRIES
      in (case fetched of
            Inl e \<Rightarrow> Inl e
          | Inr response \<Rightarrow>
              if \<not> ok response then
                Inl (new_Error (js_to_string (message (parseErrorResponse response))))
              else json response,
          trace))"

definition processNaturalLanguageQuery ::
  "nat list \<Rightarrow> (nat \<Rightarrow> outcome) \<Rightarrow> (js_error + js_value) \<times> event list" where
  "processNaturalLanguageQuery query fetch =
     (if query = [] \<or> trim query = [] then (Inl (new_Error ''Query cannot be empty''), [])
      else
        (let (fetched, trace) = fetchWithRetry fetch MAX_RETRIES;
             tried =
               (case fetched of
                  Inl e \<Rightarrow> Inl e
                | Inr response \<Rightarrow>
                    if \<not> ok response then
                      Inl (new_Error (js_to_string
                        (js_or (Some (message (parseErrorResponse response)))
                           (JStr (''HTTP error! status: '' @ string_of_nat (status response))))))
                    else json response)
         in (case tried of
               Inl e \<Rightarrow>
                 if err_message e = ''Request timeout'' then
                   Inl (new_Error ''Query timed out. Please check your connection and try again.'')
                 else Inl e
             | Inr data \<Rightarrow> Inr data,
             trace)))"

record ETPTankCapacityRequest =
  date :: string
  etp_inlet_tank_value :: js_number
  sheet_id :: "string option"

definition getETPTankCapacity ::
  "ETPTankCapacityRequest \<Rightarrow> (nat \<Rightarrow> outcome) \<Rightarrow> (js_error + js_value) \<times> event list" where
  "getETPTankCapacity request fetch =
     (if date request = [] \<or> \<not> number_truthy (etp_inlet_tank_value request) then
        (Inl (new_Error ''Date and ETP Inlet tank value are required''), [])
      else
        (let (fetched, trace) = fetchWithRetry fetch MAX_RETRIES;
             tried =
               (case fetched of
                  Inl e \<Rightarrow> Inl e
                | Inr response \<Rightarrow>
                    if \<not> ok response then
                      Inl (new_Error (js_to_string
                        (js_or (Some (message (parseErrorResponse response)))
                           (JStr (''HTTP error! status: '' @ string_of_nat (status response))))))
                    else json response)
         in (case tried of
               Inl e \<Rightarrow>
                 if err_message e = ''Request timeout'' then
                   Inl (new_Error ''Request timed out. Please check your connection and try again.'')
                 else Inl e
             | Inr data \<Rightarrow> Inr data,
             trace)))"

record ExportQueryResultsRequest =
  query :: string
  raw_data :: "js_value option"
  formatted_response :: string

definition exportQueryResults ::
  "ExportQueryResultsRequest \<Rightarrow> (nat \<Rightarrow> outcome) \<Rightarrow> (js_error + js_value) \<times> event list" where
  "exportQueryResults request fetch =
     (if query request = [] \<or> \<not> to_boolean (raw_data request) then
        (Inl (new_Error ''Query and raw_data are required''), [])
      else
        (let (fetched, trace) = fetchWithRetry fetch MAX_RETRIES;
             tried =
               (case fetched of
                  Inl e \<Rightarrow> Inl e
                | Inr response \<Rightarrow>
                    if \<not> ok response then
                      Inl (new_Error (js_to_string
                        (js_or (Some (message (parseErrorResponse response)))
                           (JStr (''HTTP error! status: '' @ string_of_nat (status response))))))
                    else json response)
         in (case tried of
               Inl e \<Rightarrow>
                 if err_message e = ''Request timeout'' then
                   Inl (new_Error ''Request timed out. Please check your connection and try again.'')
                 else Inl e
             | Inr data \<Rightarrow> Inr data,
             trace)))"

text \<open>What a log shows: the number of calls of \<^verbatim>\<open>fetch\<close>, and the delays slept.\<close>

fun attempts :: "event list \<Rightarrow> nat" where
  "attempts [] = 0"
| "attempts (Fetch t # es) = Suc (attempts es)"
| "attempts (Sleep d # es) = attempts es"

fun delays :: "event list \<Rightarrow> nat list" where
  "delays [] = []"
| "delays (Fetch t # es) = delays es"
| "delays (Sleep d # es) = d # delays es"

subsection \<open>Transports used as examples\<close>

definition server_error :: response where
  "server_error =
     \<lparr>status = 500, statusText = ''Internal Server Error'',
      json = Inr (JObj [(''error'', JStr ''INTERNAL''), (''message'', JStr ''Database unavailable'')])\<rparr>"

definition always_500 :: "nat \<Rightarrow> outcome" where
  "always_500 n = Responded server_error"

definition abort_error :: js_error where
  "abort_error = JsError ''AbortError'' ''signal is aborted without reason''"

definition always_aborted :: "nat \<Rightarrow> outcome" where
  "always_aborted n = Threw (ErrorObj abort_error)"

definition not_found :: "string \<Rightarrow> response" where
  "not_found m =
     \<lparr>status = 404, statusText = ''Not Found'',
      json = Inr (JObj [(''error'', JStr ''NOT_FOUND''), (''message'', JStr m)])\<rparr>"

definition always_not_found :: "string \<Rightarrow> nat \<Rightarrow> outcome" where
  "always_not_found m n = Responded (not_found m)"

definition error_then_not_found :: "nat \<Rightarrow> outcome" where
  "error_then_not_found n =
     (if n = 0 then Responded server_error else Responded (not_found ''Chat not found''))"

definition bad_gateway :: response where
  "bad_gateway =
     \<lparr>status = 502, statusText = ''Bad Gateway'',
      json = Inl (JsError ''SyntaxError'' ''Unexpected token < in JSON at position 0'')\<rparr>"

definition null_body :: response where
  "null_body = \<lparr>status = 200, statusText = ''OK'', json = Inr JNull\<rparr>"

definition always_null_body :: "nat \<Rightarrow> outcome" where
  "always_null_body n = Responded null_body"

definition no_tasks_body :: response where
  "no_tasks_body = \<lparr>status = 200, statusText = ''OK'', json = Inr (JObj [(''count'', JNum 0)])\<rparr>"

definition always_no_tasks :: "nat \<Rightarrow> outcome" where
  "always_no_tasks n = Responded no_tasks_body"

text \<open>The code units of \<^verbatim>\<open>hi\<close>, and of a space, a tab and a line feed.\<close>

definition hi :: "nat list" where
  "hi = [104, 105]"

definition blank :: "nat list" where
  "blank = [32, 9, 10]"

definition zero_inlet :: ETPTankCapacityRequest where
  "zero_inlet = \<lparr>date = ''2024-12-12'', etp_inlet_tank_value = Num 0, sheet_id = None\<rparr>"

definition valid_inlet :: ETPTankCapacityRequest where
  "valid_inlet = \<lparr>date = ''2024-12-12'', etp_inlet_tank_value = Num 5, sheet_id = None\<rparr>"

definition export_request :: ExportQueryResultsRequest where
  "export_request =
     \<lparr>query = ''total'', raw_data = Some (JArr [JNum 45]), formatted_response = ''45''\<rparr>"

definition null_tasks_body :: response where
  "null_tasks_body = \<lparr>status = 200, statusText = ''OK'', json = Inr (JObj [(''tasks'', JNull)])\<rparr>"

definition always_null_tasks :: "nat \<Rightarrow> outcome" where
  "always_null_tasks n = Responded null_tasks_body"

definition bare_error :: response where
  "bare_error = \<lparr>status = 500, statusText = ''Internal Server Error'', json = Inr (JObj [])\<rparr>"

definition aborted_third :: "nat \<Rightarrow> outcome" where
  "aborted_third n = (if n < 2 then Responded server_error else Threw (ErrorObj abort_error))"




section \<open>Properties\<close>

subsection \<open>Single steps of the retry loop\<close>

lemma loop_retry_response:
  assumes "int a < retries" "fetch a = Responded r" "500 \<le> status r"
  shows "fetchWithRetry_loop fetch retries a le tr =
           fetchWithRetry_loop fetch retries (Suc a) le
             (tr @ [Fetch REQUEST_TIMEOUT, Sleep (RETRY_DELAY * 2 ^ a)])"
  using assms by (subst fetchWithRetry_loop.simps) (simp add: ok_def)

lemma loop_last_response:
  assumes "int a = retries" "fetch a = Responded r"
  shows "fetchWithRetry_loop fetch retries a le tr = (Inr r, tr @ [Fetch REQUEST_TIMEOUT])"
  using assms by (subst fetchWithRetry_loop.simps) simp

lemma loop_client_error:
  assumes "int a \<le> retries" "fetch a = Responded r" "400 \<le> status r" "status r < 500"
  shows "fetchWithRetry_loop fetch retries a le tr = (Inr r, tr @ [Fetch REQUEST_TIMEOUT])"
  using assms by (subst fetchWithRetry_loop.simps) simp

lemma loop_ok:
  assumes "int a \<le> retries" "fetch a = Responded r" "ok r"
  shows "fetchWithRetry_loop fetch retries a le tr = (Inr r, tr @ [Fetch REQUEST_TIMEOUT])"
  using assms by (subst fetchWithRetry_loop.simps) simp

lemma loop_abort:
  assumes "int a \<le> retries" "fetch a = Threw (ErrorObj e)" "err_name e = ''AbortError''"
  shows "fetchWithRetry_loop fetch retries a le tr =
           (Inl (new_Error ''Request timeout''), tr @ [Fetch REQUEST_TIMEOUT])"
  using assms by (subst fetchWithRetry_loop.simps) simp



subsection \<open>The budget\<close>

text \<open>
  Whatever the transport does, a call makes at most \<open>retries + 1\<close> attempts.
\<close>

lemma attempts_append: "attempts (xs @ ys) = attempts xs + attempts ys"
  by (induction xs rule: attempts.induct) simp_all

lemma loop_within_budget:
  "attempts (snd (fetchWithRetry_loop fetch retries a le tr))
     \<le> attempts tr + nat (retries + 1 - int a)"
proof (induction fetch retries a le tr rule: fetchWithRetry_loop.induct)
  case (1 fetch retries attempt lastError trace)
  show ?case
  proof (cases "int attempt \<le> retries")
    case False
    then show ?thesis
      by (subst fetchWithRetry_loop.simps) simp
  next
    case True
    show ?thesis
    proof (cases "fetch attempt")
      case (Responded r)
      with True "1.IH"(1) [OF True Responded] show ?thesis
        by (subst fetchWithRetry_loop.simps) (auto simp: attempts_append)
    next
      case (Threw x)
      with True "1.IH"(2) [OF True Threw refl] "1.IH"(3) [OF True Threw refl] show ?thesis
        by (subst fetchWithRetry_loop.simps) (auto simp: attempts_append Let_def)
    qed
  qed
qed

lemma fetchWithRetry_within_budget:
  "0 \<le> retries \<Longrightarrow> attempts (snd (fetchWithRetry fetch retries)) \<le> nat retries + 1"
  using loop_within_budget [of fetch retries 0 None "[]"]
  by (simp add: fetchWithRetry_def nat_add_distrib)

subsection \<open>Trimming\<close>

lemma trim_Nil: "trim [] = []"
  by (simp add: trim_def)

lemma trim_blank:
  assumes "list_all WhiteSpace s"
  shows "trim s = []"
proof -
  have "dropWhile WhiteSpace s = []"
    using assms by (simp add: list_all_iff)
  then show ?thesis
    unfolding trim_def by (simp only: rev.simps dropWhile.simps)
qed

lemma trim_nonempty: "trim s \<noteq> [] \<Longrightarrow> s \<noteq> []"
  by (auto simp: trim_def)

subsection \<open>Retries and backoff\<close>

text \<open>
  C2. With the default budget of 3 retries and a transport that answers every attempt
  with status 500, \<^verbatim>\<open>fetchWithRetry\<close> calls \<^verbatim>\<open>fetch\<close> four times and sleeps
  1000, 2000 and 4000 ms between the calls, the delay after attempt \<open>n\<close> being
  \<open>1000 * 2 ^ n\<close>; the fourth response is returned and nothing follows it.
\<close>

theorem fetchWithRetry_all_500:
  assumes "\<And>n. \<exists>r. fetch n = Responded r \<and> status r = 500"
  shows "\<exists>r. fetch 3 = Responded r \<and>
           fetchWithRetry fetch MAX_RETRIES =
             (Inr r,
              [Fetch REQUEST_TIMEOUT, Sleep 1000, Fetch REQUEST_TIMEOUT, Sleep 2000,
               Fetch REQUEST_TIMEOUT, Sleep 4000, Fetch REQUEST_TIMEOUT]) \<and>
           attempts (snd (fetchWithRetry fetch MAX_RETRIES)) = 4 \<and>
           delays (snd (fetchWithRetry fetch MAX_RETRIES)) = map (\<lambda>n. 1000 * 2 ^ n) [0..<3]"
proof -
  obtain r0 where r0: "fetch 0 = Responded r0" "status r0 = 500" using assms by blast
  obtain r1 where r1: "fetch (Suc 0) = Responded r1" "status r1 = 500" using assms by blast
  obtain r2 where r2: "fetch (Suc (Suc 0)) = Responded r2" "status r2 = 500" using assms by blast
  obtain r3 where r3: "fetch (Suc (Suc (Suc 0))) = Responded r3" "status r3 = 500"
    using assms by blast
  have run: "fetchWithRetry_loop fetch 3 0 None [] =
      (Inr r3, [Fetch REQUEST_TIMEOUT, Sleep 1000, Fetch REQUEST_TIMEOUT, Sleep 2000,
         Fetch REQUEST_TIMEOUT, Sleep 4000, Fetch REQUEST_TIMEOUT])"
    using r0 r1 r2 r3
    by (simp add: loop_retry_response [where r = r0] loop_retry_response [where r = r1]
        loop_retry_response [where r = r2] loop_last_response [where r = r3] RETRY_DELAY_def)
  have three: "(3::nat) = Suc (Suc (Suc 0))" by simp
  show ?thesis
    using r3 run by (simp add: fetchWithRetry_def MAX_RETRIES_def three upt_rec)
qed

theorem fetchWithRetry_all_500_witness:
  "fetchWithRetry always_500 MAX_RETRIES =
     (Inr server_error,
      [Fetch REQUEST_TIMEOUT, Sleep 1000, Fetch REQUEST_TIMEOUT, Sleep 2000,
       Fetch REQUEST_TIMEOUT, Sleep 4000, Fetch REQUEST_TIMEOUT])"
  using fetchWithRetry_all_500 [of always_500]
  by (simp add: always_500_def server_error_def)

subsection \<open>Aborted attempts\<close>

text \<open>
  C4. When the attempt that the loop is at throws an error whose name is
  \<^verbatim>\<open>AbortError\<close>, the call rejects with \<^verbatim>\<open>Error('Request timeout')\<close> and the
  log grows by that one call of \<^verbatim>\<open>fetch\<close>: no sleep and no further attempt follow,
  whatever the budget, the attempt number and the errors seen before. When it is the
  first attempt, the whole call is that one attempt.
\<close>

theorem fetchWithRetry_abort_is_final:
  assumes "int a \<le> retries" "fetch a = Threw (ErrorObj e)" "err_name e = ''AbortError''"
  shows "fetchWithRetry_loop fetch retries a lastError trace =
           (Inl (new_Error ''Request timeout''), trace @ [Fetch REQUEST_TIMEOUT]) \<and>
         (a = 0 \<longrightarrow> fetchWithRetry fetch retries =
           (Inl (new_Error ''Request timeout''), [Fetch REQUEST_TIMEOUT]))"
  using assms by (auto simp: loop_abort fetchWithRetry_def)

theorem fetchWithRetry_abort_is_final_witness:
  "fetchWithRetry always_aborted MAX_RETRIES =
     (Inl (new_Error ''Request timeout''), [Fetch REQUEST_TIMEOUT]) \<and>
   fetchWithRetry aborted_third MAX_RETRIES =
     (Inl (new_Error ''Request timeout''),
      [Fetch REQUEST_TIMEOUT, Sleep 1000, Fetch REQUEST_TIMEOUT, Sleep 2000, Fetch REQUEST_TIMEOUT])"
proof -
  have first: "fetchWithRetry always_aborted MAX_RETRIES =
      (Inl (new_Error ''Request timeout''), [Fetch REQUEST_TIMEOUT])"
    using fetchWithRetry_abort_is_final [of 0 MAX_RETRIES always_aborted abort_error None "[]"]
    by (simp add: always_aborted_def abort_error_def MAX_RETRIES_def)
  have two: "(2::nat) = Suc (Suc 0)" by simp
  have reach: "fetchWithRetry aborted_third MAX_RETRIES =
      fetchWithRetry_loop aborted_third MAX_RETRIES 2 None
        [Fetch REQUEST_TIMEOUT, Sleep 1000, Fetch REQUEST_TIMEOUT, Sleep 2000]"
    by (simp add: fetchWithRetry_def MAX_RETRIES_def two
        loop_retry_response [where r = server_error] aborted_third_def server_error_def
        RETRY_DELAY_def)
  have third: "fetchWithRetry_loop aborted_third MAX_RETRIES 2 None
        [Fetch REQUEST_TIMEOUT, Sleep 1000, Fetch REQUEST_TIMEOUT, Sleep 2000] =
      (Inl (new_Error ''Request timeout''),
       [Fetch REQUEST_TIMEOUT, Sleep 1000, Fetch REQUEST_TIMEOUT, Sleep 2000, Fetch REQUEST_TIMEOUT])"
    using fetchWithRetry_abort_is_final [of 2 MAX_RETRIES aborted_third abort_error None
        "[Fetch REQUEST_TIMEOUT, Sleep 1000, Fetch REQUEST_TIMEOUT, Sleep 2000]"]
    by (simp add: aborted_third_def abort_error_def MAX_RETRIES_def)
  show ?thesis
    using first reach third by simp
qed

subsection \<open>Client errors\<close>

text \<open>
  C3, as amended. A response with a status from 400 to 499 ends the call at the attempt it
  answers: it is returned with no sleep and no further attempt, whatever the budget, and
  when it answers the first attempt the call is exactly one call of \<^verbatim>\<open>fetch\<close>.
  When \<^verbatim>\<open>fetchWithRetry\<close> returns such a response, \<^verbatim>\<open>sendChatMessage\<close>
  rejects with the \<^verbatim>\<open>message\<close> of the JSON body when that is a non-empty string
  other than \<^verbatim>\<open>Request timeout\<close>, and with \<^verbatim>\<open>An unknown error occurred\<close>
  when the body, not being \<^verbatim>\<open>null\<close>, has no \<^verbatim>\<open>message\<close> or an empty
  one.
\<close>

theorem client_error_not_retried:
  assumes "int a \<le> retries" "fetch a = Responded r" "400 \<le> status r" "status r < 500"
  shows "fetchWithRetry_loop fetch retries a lastError trace =
           (Inr r, trace @ [Fetch REQUEST_TIMEOUT]) \<and>
         (a = 0 \<longrightarrow>
            fetchWithRetry fetch retries = (Inr r, [Fetch REQUEST_TIMEOUT]) \<and>
            attempts (snd (fetchWithRetry fetch retries)) = 1) \<and>
         (fetchWithRetry fetch MAX_RETRIES = (Inr r, tr) \<and> trim msg \<noteq> [] \<and> json r = Inr data \<and>
            property data ''message'' = Inr (Some (JStr m)) \<and> m \<noteq> [] \<and> m \<noteq> ''Request timeout'' \<longrightarrow>
          sendChatMessage msg fetch = (Inl (new_Error m), tr)) \<and>
         (fetchWithRetry fetch MAX_RETRIES = (Inr r, tr) \<and> trim msg \<noteq> [] \<and> json r = Inr data \<and>
            (property data ''message'' = Inr None \<or> property data ''message'' = Inr (Some (JStr ''''))) \<longrightarrow>
          sendChatMessage msg fetch = (Inl (new_Error ''An unknown error occurred''), tr))"
proof -
  have step: "fetchWithRetry_loop fetch retries a lastError trace =
      (Inr r, trace @ [Fetch REQUEST_TIMEOUT])"
    using assms by (rule loop_client_error)
  have whole: "fetchWithRetry fetch retries = (Inr r, [Fetch REQUEST_TIMEOUT])" if "a = 0"
    using that assms by (simp add: fetchWithRetry_def loop_client_error)
  have not_ok: "\<not> ok r"
    using assms by (simp add: ok_def)
  have given: "sendChatMessage msg fetch = (Inl (new_Error m), tr)"
    if "fetchWithRetry fetch MAX_RETRIES = (Inr r, tr)" "trim msg \<noteq> []" "json r = Inr data"
      "property data ''message'' = Inr (Some (JStr m))" "m \<noteq> []" "m \<noteq> ''Request timeout''"
  proof -
    have "data \<noteq> JNull" using that(4) by auto
    then obtain err det where "property data ''error'' = Inr err" "property data ''details'' = Inr det"
      by (cases data) auto
    then have "message (parseErrorResponse r) = JStr m"
      using that by (simp add: parseErrorResponse_def)
    then show ?thesis
      using that not_ok trim_nonempty [of msg]
      by (simp add: sendChatMessage_def new_Error_def)
  qed
  have absent: "sendChatMessage msg fetch = (Inl (new_Error ''An unknown error occurred''), tr)"
    if "fetchWithRetry fetch MAX_RETRIES = (Inr r, tr)" "trim msg \<noteq> []" "json r = Inr data"
      "property data ''message'' = Inr None \<or> property data ''message'' = Inr (Some (JStr ''''))"
  proof -
    have "data \<noteq> JNull" using that(4) by auto
    then obtain err det where "property data ''error'' = Inr err" "property data ''details'' = Inr det"
      by (cases data) auto
    then have "message (parseErrorResponse r) = JStr ''An unknown error occurred''"
      using that by (auto simp: parseErrorResponse_def)
    then show ?thesis
      using that not_ok trim_nonempty [of msg]
      by (simp add: sendChatMessage_def new_Error_def)
  qed
  show ?thesis
    using step whole given absent by simp
qed

lemma not_found_run:
  "fetchWithRetry (always_not_found m) MAX_RETRIES = (Inr (not_found m), [Fetch REQUEST_TIMEOUT])"
  by (simp add: fetchWithRetry_def loop_client_error [where r = "not_found m"] MAX_RETRIES_def
      always_not_found_def not_found_def)

theorem client_error_not_retried_witness:
  "fetchWithRetry (always_not_found ''Chat not found'') MAX_RETRIES =
     (Inr (not_found ''Chat not found''), [Fetch REQUEST_TIMEOUT]) \<and>
   sendChatMessage hi (always_not_found ''Chat not found'') =
     (Inl (new_Error ''Chat not found''), [Fetch REQUEST_TIMEOUT]) \<and>
   sendChatMessage hi (always_not_found '''') =
     (Inl (new_Error ''An unknown error occurred''), [Fetch REQUEST_TIMEOUT])"
proof -
  have trimmed: "trim hi \<noteq> []"
    by (simp add: hi_def trim_def WhiteSpace_def)
  show ?thesis
    using trimmed not_found_run [of "''Chat not found''"] not_found_run [of "''''"]
      client_error_not_retried [of 0 MAX_RETRIES "always_not_found ''Chat not found''"
        "not_found ''Chat not found''" None "[]" "[Fetch REQUEST_TIMEOUT]" hi
        "JObj [(''error'', JStr ''NOT_FOUND''), (''message'', JStr ''Chat not found'')]"
        "''Chat not found''"]
      client_error_not_retried [of 0 MAX_RETRIES "always_not_found ''''" "not_found ''''"
        None "[]" "[Fetch REQUEST_TIMEOUT]" hi
        "JObj [(''error'', JStr ''NOT_FOUND''), (''message'', JStr '''')]"]
    by (simp add: always_not_found_def not_found_def MAX_RETRIES_def)
qed

text \<open>
  The claim as stated fails on a 404 whose body has the empty string as
  \<^verbatim>\<open>message\<close>: the rejection message is the default of
  \<^verbatim>\<open>parseErrorResponse\<close>, not the field. And a call whose response is a 404 has
  made two attempts when a 500 came first.
\<close>

theorem sendChatMessage_404_empty_message:
  "status (not_found '''') = 404 \<and>
   json (not_found '''') = Inr (JObj [(''error'', JStr ''NOT_FOUND''), (''message'', JStr '''')]) \<and>
   sendChatMessage hi (always_not_found '''') =
     (Inl (new_Error ''An unknown error occurred''), [Fetch REQUEST_TIMEOUT]) \<and>
   fst (sendChatMessage hi (always_not_found '''')) \<noteq> Inl (new_Error '''') \<and>
   fetchWithRetry error_then_not_found MAX_RETRIES =
     (Inr (not_found ''Chat not found''),
      [Fetch REQUEST_TIMEOUT, Sleep 1000, Fetch REQUEST_TIMEOUT]) \<and>
   attempts (snd (fetchWithRetry error_then_not_found MAX_RETRIES)) = 2"
proof -
  have run: "fetchWithRetry error_then_not_found MAX_RETRIES =
      (Inr (not_found ''Chat not found''),
       [Fetch REQUEST_TIMEOUT, Sleep 1000, Fetch REQUEST_TIMEOUT])"
    by (simp add: fetchWithRetry_def MAX_RETRIES_def error_then_not_found_def
        loop_retry_response [where r = server_error]
        loop_client_error [where r = "not_found ''Chat not found''"]
        server_error_def not_found_def RETRY_DELAY_def)
  show ?thesis
    using not_found_run [of "''''"] run
    by (simp add: sendChatMessage_def hi_def trim_def WhiteSpace_def ok_def parseErrorResponse_def
        not_found_def new_Error_def)
qed

text \<open>
  A body whose \<^verbatim>\<open>message\<close> is \<^verbatim>\<open>Request timeout\<close> is thrown inside the
  \<^verbatim>\<open>try\<close> block, so the \<^verbatim>\<open>catch\<close> of \<^verbatim>\<open>sendChatMessage\<close> relabels it.
\<close>

lemma sendChatMessage_404_timeout_text:
  "sendChatMessage hi (always_not_found ''Request timeout'') =
     (Inl (new_Error ''Request timed out. Please check your connection and try again.''),
      [Fetch REQUEST_TIMEOUT])"
proof -
  have "fetchWithRetry (always_not_found ''Request timeout'') MAX_RETRIES =
      (Inr (not_found ''Request timeout''), [Fetch REQUEST_TIMEOUT])"
    by (simp add: fetchWithRetry_def loop_client_error [where r = "not_found ''Request timeout''"]
        MAX_RETRIES_def always_not_found_def not_found_def)
  then show ?thesis
    by (simp add: sendChatMessage_def hi_def trim_def WhiteSpace_def ok_def parseErrorResponse_def
        not_found_def new_Error_def)
qed

subsection \<open>Relabelling a timeout\<close>

text \<open>
  C5, as amended. When \<^verbatim>\<open>fetchWithRetry\<close> rejects with the message
  \<^verbatim>\<open>Request timeout\<close>, the functions with a \<^verbatim>\<open>catch\<close> block relabel it:
  \<^verbatim>\<open>sendChatMessage\<close>, \<^verbatim>\<open>getETPTankCapacity\<close> and
  \<^verbatim>\<open>exportQueryResults\<close> reject with
  \<^verbatim>\<open>Request timed out. Please check your connection and try again.\<close>, and
  \<^verbatim>\<open>processNaturalLanguageQuery\<close> with \<^verbatim>\<open>Query timed out. Please check your
  connection and try again.\<close> (their inputs having passed validation). The functions
  without one, \<^verbatim>\<open>createTask\<close>, \<^verbatim>\<open>listTasks\<close>, \<^verbatim>\<open>updateTask\<close>,
  \<^verbatim>\<open>deleteTask\<close>, \<^verbatim>\<open>getUpcomingTasks\<close> and \<^verbatim>\<open>exportToSheet\<close>, reject
  with the error of \<^verbatim>\<open>fetchWithRetry\<close> unchanged.
\<close>

theorem timeout_relabelled_by_four:
  assumes "fetchWithRetry fetch MAX_RETRIES = (Inl e, trace)" "err_message e = ''Request timeout''"
  shows "(trim msg \<noteq> [] \<longrightarrow>
            sendChatMessage msg fetch =
              (Inl (new_Error ''Request timed out. Please check your connection and try again.''), trace)) \<and>
         (trim q \<noteq> [] \<longrightarrow>
            processNaturalLanguageQuery q fetch =
              (Inl (new_Error ''Query timed out. Please check your connection and try again.''), trace)) \<and>
         (date request \<noteq> [] \<and> number_truthy (etp_inlet_tank_value request) \<longrightarrow>
            getETPTankCapacity request fetch =
              (Inl (new_Error ''Request timed out. Please check your connection and try again.''), trace)) \<and>
         (query export \<noteq> [] \<and> raw_data export = Some v \<and> truthy v \<longrightarrow>
            exportQueryResults export fetch =
              (Inl (new_Error ''Request timed out. Please check your connection and try again.''), trace)) \<and>
         createTask fetch = (Inl e, trace) \<and>
         listTasks fetch = (Inl e, trace) \<and>
         updateTask fetch = (Inl e, trace) \<and>
         deleteTask fetch = (Inl e, trace) \<and>
         getUpcomingTasks fetch = (Inl e, trace) \<and>
         exportToSheet fetch = (Inl e, trace)"
proof -
  have "sendChatMessage msg fetch =
      (Inl (new_Error ''Request timed out. Please check your connection and try again.''), trace)"
    if "trim msg \<noteq> []"
    using that assms trim_nonempty [of msg] by (simp add: sendChatMessage_def)
  moreover have "processNaturalLanguageQuery q fetch =
      (Inl (new_Error ''Query timed out. Please check your connection and try again.''), trace)"
    if "trim q \<noteq> []"
    using that assms trim_nonempty [of q] by (simp add: processNaturalLanguageQuery_def)
  moreover have "getETPTankCapacity request fetch =
      (Inl (new_Error ''Request timed out. Please check your connection and try again.''), trace)"
    if "date request \<noteq> []" "number_truthy (etp_inlet_tank_value request)"
    using that assms by (simp add: getETPTankCapacity_def)
  moreover have "exportQueryResults export fetch =
      (Inl (new_Error ''Request timed out. Please check your connection and try again.''), trace)"
    if "query export \<noteq> []" "raw_data export = Some v" "truthy v"
    using that assms by (simp add: exportQueryResults_def)
  moreover have "createTask fetch = (Inl e, trace)" "listTasks fetch = (Inl e, trace)"
    "updateTask fetch = (Inl e, trace)" "deleteTask fetch = (Inl e, trace)"
    "getUpcomingTasks fetch = (Inl e, trace)" "exportToSheet fetch = (Inl e, trace)"
    using assms
    by (simp_all add: createTask_def listTasks_def updateTask_def deleteTask_def
        getUpcomingTasks_def exportToSheet_def)
  ultimately show ?thesis by simp
qed

lemma aborted_run:
  "fetchWithRetry always_aborted MAX_RETRIES =
     (Inl (new_Error ''Request timeout''), [Fetch REQUEST_TIMEOUT])"
  by (simp add: fetchWithRetry_def loop_abort [where e = abort_error] always_aborted_def
      abort_error_def MAX_RETRIES_def)

theorem timeout_relabelled_by_four_witness:
  "sendChatMessage hi always_aborted =
     (Inl (new_Error ''Request timed out. Please check your connection and try again.''),
      [Fetch REQUEST_TIMEOUT]) \<and>
   processNaturalLanguageQuery hi always_aborted =
     (Inl (new_Error ''Query timed out. Please check your connection and try again.''),
      [Fetch REQUEST_TIMEOUT]) \<and>
   getETPTankCapacity valid_inlet always_aborted =
     (Inl (new_Error ''Request timed out. Please check your connection and try again.''),
      [Fetch REQUEST_TIMEOUT]) \<and>
   exportQueryResults export_request always_aborted =
     (Inl (new_Error ''Request timed out. Please check your connection and try again.''),
      [Fetch REQUEST_TIMEOUT]) \<and>
   createTask always_aborted = (Inl (new_Error ''Request timeout''), [Fetch REQUEST_TIMEOUT]) \<and>
   deleteTask always_aborted = (Inl (new_Error ''Request timeout''), [Fetch REQUEST_TIMEOUT])"
proof -
  have trimmed: "trim hi \<noteq> []"
    by (simp add: hi_def trim_def WhiteSpace_def)
  show ?thesis
    using trimmed aborted_run
      timeout_relabelled_by_four [of always_aborted "new_Error ''Request timeout''"
        "[Fetch REQUEST_TIMEOUT]" hi hi valid_inlet export_request "JArr [JNum 45]"]
    by (simp add: new_Error_def valid_inlet_def export_request_def)
qed

text \<open>
  The claim as stated fails for \<^verbatim>\<open>createTask\<close>: on an aborted attempt it rejects
  with \<^verbatim>\<open>Request timeout\<close> itself.
\<close>

theorem createTask_timeout_not_relabelled:
  "fst (fetchWithRetry always_aborted MAX_RETRIES) = Inl (new_Error ''Request timeout'') \<and>
   fst (createTask always_aborted) = Inl (new_Error ''Request timeout'') \<and>
   fst (createTask always_aborted) \<noteq>
     Inl (new_Error ''Request timed out. Please check your connection and try again.'')"
  using aborted_run by (simp add: createTask_def new_Error_def)

subsection \<open>Validation before the network\<close>

text \<open>
  C6. For a string that is empty or holds only white space, \<^verbatim>\<open>sendChatMessage\<close>
  rejects with \<^verbatim>\<open>Message cannot be empty\<close> and
  \<^verbatim>\<open>processNaturalLanguageQuery\<close> with \<^verbatim>\<open>Query cannot be empty\<close>; the log is
  empty, so \<^verbatim>\<open>fetch\<close> is never called.
\<close>

theorem blank_input_rejected:
  assumes "list_all WhiteSpace s"
  shows "sendChatMessage s fetch = (Inl (new_Error ''Message cannot be empty''), []) \<and>
         processNaturalLanguageQuery s fetch = (Inl (new_Error ''Query cannot be empty''), []) \<and>
         attempts (snd (sendChatMessage s fetch)) = 0 \<and>
         attempts (snd (processNaturalLanguageQuery s fetch)) = 0"
  using trim_blank [OF assms] by (simp add: sendChatMessage_def processNaturalLanguageQuery_def)

theorem blank_input_rejected_witness:
  "list_all WhiteSpace blank \<and>
   sendChatMessage blank always_500 = (Inl (new_Error ''Message cannot be empty''), []) \<and>
   processNaturalLanguageQuery [] always_500 = (Inl (new_Error ''Query cannot be empty''), [])"
proof -
  have b: "list_all WhiteSpace blank"
    by (simp add: blank_def WhiteSpace_def)
  have e: "list_all WhiteSpace []"
    by simp
  show ?thesis
    using b blank_input_rejected [OF b, of always_500] blank_input_rejected [OF e, of always_500]
    by simp
qed

text \<open>
  C8. A request whose \<^verbatim>\<open>etp_inlet_tank_value\<close> is the number 0 is rejected with
  \<^verbatim>\<open>Date and ETP Inlet tank value are required\<close>, whatever its date, and
  \<^verbatim>\<open>fetch\<close> is never called: the check \<^verbatim>\<open>!request.etp_inlet_tank_value\<close>
  holds of 0.
\<close>

theorem getETPTankCapacity_zero_rejected:
  assumes "etp_inlet_tank_value request = Num 0"
  shows "getETPTankCapacity request fetch =
           (Inl (new_Error ''Date and ETP Inlet tank value are required''), [])"
  using assms by (simp add: getETPTankCapacity_def)

theorem getETPTankCapacity_zero_rejected_witness:
  "date zero_inlet \<noteq> [] \<and>
   getETPTankCapacity zero_inlet always_500 =
     (Inl (new_Error ''Date and ETP Inlet tank value are required''), [])"
  using getETPTankCapacity_zero_rejected [of zero_inlet always_500]
  by (simp add: zero_inlet_def)

subsection \<open>The health check\<close>

text \<open>
  C10. \<^verbatim>\<open>checkApiHealth\<close> always resolves and never rejects: with \<^verbatim>\<open>true\<close>
  exactly when the response has a status from 200 to 299, with \<^verbatim>\<open>false\<close> whenever
  \<^verbatim>\<open>fetch\<close> throws. It calls \<^verbatim>\<open>fetch\<close> once, under a 5000 ms timeout, and
  never sleeps: the retry loop, whose calls run under 120000 ms, is not involved.
\<close>

theorem checkApiHealth_total:
  "(\<exists>b. checkApiHealth fetch = (Inr b, [Fetch 5000])) \<and>
   (fst (checkApiHealth fetch) = Inr True \<longleftrightarrow>
      (\<exists>r. fetch 0 = Responded r \<and> 200 \<le> status r \<and> status r \<le> 299)) \<and>
   ((\<exists>e. fetch 0 = Threw e) \<longrightarrow> fst (checkApiHealth fetch) = Inr False) \<and>
   attempts (snd (checkApiHealth fetch)) = 1 \<and>
   delays (snd (checkApiHealth fetch)) = []"
  by (cases "fetch 0") (auto simp: checkApiHealth_def ok_def)

theorem checkApiHealth_total_witness:
  "checkApiHealth always_aborted = (Inr False, [Fetch 5000]) \<and>
   checkApiHealth always_null_body = (Inr True, [Fetch 5000]) \<and>
   checkApiHealth always_500 = (Inr False, [Fetch 5000])"
  using checkApiHealth_total [of always_aborted] checkApiHealth_total [of always_null_body]
    checkApiHealth_total [of always_500]
  by (simp add: checkApiHealth_def always_aborted_def always_null_body_def null_body_def
      always_500_def server_error_def ok_def)

subsection \<open>Defaults for an absent list of tasks\<close>

lemma ok_run:
  assumes "fetch 0 = Responded r" "ok r"
  shows "fetchWithRetry fetch MAX_RETRIES = (Inr r, [Fetch REQUEST_TIMEOUT])"
  using assms by (simp add: fetchWithRetry_def loop_ok MAX_RETRIES_def)

text \<open>
  C9, as amended. When the response that \<^verbatim>\<open>fetchWithRetry\<close> returns has a status
  from 200 to 299 and a JSON body other than \<^verbatim>\<open>null\<close> that has no
  \<^verbatim>\<open>tasks\<close> property, or has \<^verbatim>\<open>null\<close> there, \<^verbatim>\<open>listTasks\<close> and
  \<^verbatim>\<open>getUpcomingTasks\<close> resolve with the empty array.
\<close>

theorem tasks_default_empty:
  assumes "fetchWithRetry fetch MAX_RETRIES = (Inr r, trace)" "ok r" "json r = Inr data"
    "data \<noteq> JNull"
    "property data ''tasks'' = Inr None \<or> property data ''tasks'' = Inr (Some JNull)"
  shows "listTasks fetch = (Inr (JArr []), trace) \<and> getUpcomingTasks fetch = (Inr (JArr []), trace)"
  using assms by (auto simp: listTasks_def getUpcomingTasks_def)

theorem tasks_default_empty_witness:
  "listTasks always_no_tasks = (Inr (JArr []), [Fetch REQUEST_TIMEOUT]) \<and>
   getUpcomingTasks always_no_tasks = (Inr (JArr []), [Fetch REQUEST_TIMEOUT]) \<and>
   listTasks always_null_tasks = (Inr (JArr []), [Fetch REQUEST_TIMEOUT]) \<and>
   getUpcomingTasks always_null_tasks = (Inr (JArr []), [Fetch REQUEST_TIMEOUT])"
proof -
  have absent: "fetchWithRetry always_no_tasks MAX_RETRIES = (Inr no_tasks_body, [Fetch REQUEST_TIMEOUT])"
    by (rule ok_run) (simp_all add: always_no_tasks_def no_tasks_body_def ok_def)
  have null: "fetchWithRetry always_null_tasks MAX_RETRIES = (Inr null_tasks_body, [Fetch REQUEST_TIMEOUT])"
    by (rule ok_run) (simp_all add: always_null_tasks_def null_tasks_body_def ok_def)
  show ?thesis
    using tasks_default_empty [OF absent, of "JObj [(''count'', JNum 0)]"]
      tasks_default_empty [OF null, of "JObj [(''tasks'', JNull)]"]
    by (simp add: no_tasks_body_def null_tasks_body_def ok_def)
qed

text \<open>
  The claim as stated fails on the JSON body \<^verbatim>\<open>null\<close>, which has no
  \<^verbatim>\<open>tasks\<close>: reading \<^verbatim>\<open>data.tasks\<close> throws, and both functions reject with
  the \<^verbatim>\<open>TypeError\<close>.
\<close>

theorem listTasks_null_body:
  "ok null_body \<and> json null_body = Inr JNull \<and>
   fst (listTasks always_null_body) =
     Inl (JsError ''TypeError'' ''Cannot read properties of null (reading 'tasks')'') \<and>
   fst (getUpcomingTasks always_null_body) =
     Inl (JsError ''TypeError'' ''Cannot read properties of null (reading 'tasks')'') \<and>
   fst (listTasks always_null_body) \<noteq> Inr (JArr [])"
proof -
  have run: "fetchWithRetry always_null_body MAX_RETRIES = (Inr null_body, [Fetch REQUEST_TIMEOUT])"
    by (rule ok_run) (simp_all add: always_null_body_def null_body_def ok_def)
  show ?thesis
    using run by (simp add: listTasks_def getUpcomingTasks_def null_body_def ok_def)
qed

subsection \<open>Parsing an error body\<close>

text \<open>
  C7, as amended. For a body that parses as JSON and is not \<^verbatim>\<open>null\<close>,
  \<^verbatim>\<open>parseErrorResponse\<close> returns the body's \<^verbatim>\<open>error\<close> and \<^verbatim>\<open>message\<close>
  where they are truthy, and \<^verbatim>\<open>UNKNOWN_ERROR\<close> and
  \<^verbatim>\<open>An unknown error occurred\<close> where they are absent or falsy. For a body that does
  not parse, and for the body \<^verbatim>\<open>null\<close>, it returns the error \<^verbatim>\<open>HTTP_ERROR\<close>
  with the message \<^verbatim>\<open>HTTP {status}: {statusText}\<close>.
\<close>

theorem parseErrorResponse_cases:
  "(json r = Inr data \<and> property data ''error'' = Inr (Some e) \<and> truthy e \<longrightarrow>
      error (parseErrorResponse r) = e) \<and>
   (json r = Inr data \<and> property data ''message'' = Inr (Some m) \<and> truthy m \<longrightarrow>
      message (parseErrorResponse r) = m) \<and>
   (json r = Inr data \<and> property data ''error'' = Inr x \<and> \<not> to_boolean x \<longrightarrow>
      error (parseErrorResponse r) = JStr ''UNKNOWN_ERROR'') \<and>
   (json r = Inr data \<and> property data ''message'' = Inr y \<and> \<not> to_boolean y \<longrightarrow>
      message (parseErrorResponse r) = JStr ''An unknown error occurred'') \<and>
   ((\<exists>err. json r = Inl err) \<or> json r = Inr JNull \<longrightarrow>
      parseErrorResponse r =
        \<lparr>error = JStr ''HTTP_ERROR'',
         message = JStr (''HTTP '' @ string_of_nat (status r) @ '': '' @ statusText r),
         details = None\<rparr>)"
proof -
  have fields: "\<exists>a b c. property data ''error'' = Inr a \<and> property data ''message'' = Inr b \<and>
      property data ''details'' = Inr c" if "data \<noteq> JNull"
    using that by (cases data) auto
  have 1: "error (parseErrorResponse r) = e"
    if "json r = Inr data" "property data ''error'' = Inr (Some e)" "truthy e"
  proof -
    have "data \<noteq> JNull" using that(2) by auto
    from fields [OF this] show ?thesis
      using that by (auto simp: parseErrorResponse_def)
  qed
  have 2: "message (parseErrorResponse r) = m"
    if "json r = Inr data" "property data ''message'' = Inr (Some m)" "truthy m"
  proof -
    have "data \<noteq> JNull" using that(2) by auto
    from fields [OF this] show ?thesis
      using that by (auto simp: parseErrorResponse_def)
  qed
  have 3: "error (parseErrorResponse r) = JStr ''UNKNOWN_ERROR''"
    if "json r = Inr data" "property data ''error'' = Inr x" "\<not> to_boolean x"
  proof -
    have "data \<noteq> JNull" using that(2) by auto
    from fields [OF this] show ?thesis
      using that by (cases x) (auto simp: parseErrorResponse_def)
  qed
  have 4: "message (parseErrorResponse r) = JStr ''An unknown error occurred''"
    if "json r = Inr data" "property data ''message'' = Inr y" "\<not> to_boolean y"
  proof -
    have "data \<noteq> JNull" using that(2) by auto
    from fields [OF this] show ?thesis
      using that by (cases y) (auto simp: parseErrorResponse_def)
  qed
  have 5: "parseErrorResponse r =
        \<lparr>error = JStr ''HTTP_ERROR'',
         message = JStr (''HTTP '' @ string_of_nat (status r) @ '': '' @ statusText r),
         details = None\<rparr>"
    if "(\<exists>err. json r = Inl err) \<or> json r = Inr JNull"
    using that by (auto simp: parseErrorResponse_def)
  show ?thesis
    using 1 2 3 4 5 by blast
qed

theorem parseErrorResponse_cases_witness:
  "error (parseErrorResponse (not_found ''Chat not found'')) = JStr ''NOT_FOUND'' \<and>
   message (parseErrorResponse (not_found ''Chat not found'')) = JStr ''Chat not found'' \<and>
   error (parseErrorResponse bare_error) = JStr ''UNKNOWN_ERROR'' \<and>
   message (parseErrorResponse bare_error) = JStr ''An unknown error occurred'' \<and>
   message (parseErrorResponse (not_found '''')) = JStr ''An unknown error occurred'' \<and>
   parseErrorResponse bad_gateway =
     \<lparr>error = JStr ''HTTP_ERROR'', message = JStr ''HTTP 502: Bad Gateway'', details = None\<rparr> \<and>
   parseErrorResponse null_body =
     \<lparr>error = JStr ''HTTP_ERROR'', message = JStr ''HTTP 200: OK'', details = None\<rparr>"
  using parseErrorResponse_cases [of "not_found ''Chat not found''"
      "JObj [(''error'', JStr ''NOT_FOUND''), (''message'', JStr ''Chat not found'')]"
      "JStr ''NOT_FOUND''" "JStr ''Chat not found''"]
    parseErrorResponse_cases [of bare_error "JObj []" _ _ None None]
    parseErrorResponse_cases [of "not_found ''''"
      "JObj [(''error'', JStr ''NOT_FOUND''), (''message'', JStr '''')]" _ _ _ "Some (JStr '''')"]
    parseErrorResponse_cases [of bad_gateway]
    parseErrorResponse_cases [of null_body]
  by (simp add: not_found_def bad_gateway_def bare_error_def null_body_def string_of_nat.simps digit_def)

text \<open>
  The claim as stated fails on a JSON body whose \<^verbatim>\<open>message\<close> is the empty string,
  where the default is returned and not the field, and on the JSON body \<^verbatim>\<open>null\<close>,
  which parses and still gets the fallback.
\<close>

theorem parseErrorResponse_empty_fields:
  "json (not_found '''') = Inr (JObj [(''error'', JStr ''NOT_FOUND''), (''message'', JStr '''')]) \<and>
   message (parseErrorResponse (not_found '''')) = JStr ''An unknown error occurred'' \<and>
   message (parseErrorResponse (not_found '''')) \<noteq> JStr '''' \<and>
   json null_body = Inr JNull \<and>
   parseErrorResponse null_body =
     \<lparr>error = JStr ''HTTP_ERROR'', message = JStr ''HTTP 200: OK'', details = None\<rparr>"
  by (simp add: parseErrorResponse_def not_found_def null_body_def string_of_nat.simps digit_def)

subsection \<open>The signal handed to fetch\<close>










end
